theory Spec2Isabelle
  imports Complex_Main
begin

section \<open>Cells of a numeric column\<close>

text \<open>
  A pandas column of the program holds 64-bit floats. A cell is modelled as a finite
  number, one of the two infinities, or NaN (the marker pandas uses for a missing or
  undefined cell). Finite arithmetic is exact (real numbers): rounding, overflow and the
  sign of zero are not modelled. The operations below follow IEEE 754 on the special
  values, as numpy applies them element by element without raising.
\<close>

datatype fval = Fin real | PInf | NInf | NaN

fun is_nan :: "fval \<Rightarrow> bool" where
  "is_nan NaN = True"
| "is_nan _ = False"

fun is_inf :: "fval \<Rightarrow> bool" where
  "is_inf PInf = True"
| "is_inf NInf = True"
| "is_inf _ = False"

fun is_fin :: "fval \<Rightarrow> bool" where
  "is_fin (Fin _) = True"
| "is_fin _ = False"

fun fin_val :: "fval \<Rightarrow> real" where
  "fin_val (Fin a) = a"
| "fin_val _ = 0"

fun fneg :: "fval \<Rightarrow> fval" where
  "fneg (Fin a) = Fin (- a)"
| "fneg PInf = NInf"
| "fneg NInf = PInf"
| "fneg NaN = NaN"

fun fadd :: "fval \<Rightarrow> fval \<Rightarrow> fval" where
  "fadd (Fin a) (Fin b) = Fin (a + b)"
| "fadd NaN _ = NaN"
| "fadd _ NaN = NaN"
| "fadd PInf NInf = NaN"
| "fadd NInf PInf = NaN"
| "fadd PInf _ = PInf"
| "fadd NInf _ = NInf"
| "fadd _ PInf = PInf"
| "fadd _ NInf = NInf"

definition fsub :: "fval \<Rightarrow> fval \<Rightarrow> fval" where
  "fsub a b = fadd a (fneg b)"

fun fmul :: "fval \<Rightarrow> fval \<Rightarrow> fval" where
  "fmul (Fin a) (Fin b) = Fin (a * b)"
| "fmul NaN _ = NaN"
| "fmul _ NaN = NaN"
| "fmul (Fin a) PInf = (if 0 < a then PInf else if a < 0 then NInf else NaN)"
| "fmul (Fin a) NInf = (if 0 < a then NInf else if a < 0 then PInf else NaN)"
| "fmul PInf (Fin b) = (if 0 < b then PInf else if b < 0 then NInf else NaN)"
| "fmul NInf (Fin b) = (if 0 < b then NInf else if b < 0 then PInf else NaN)"
| "fmul PInf PInf = PInf"
| "fmul NInf NInf = PInf"
| "fmul PInf NInf = NInf"
| "fmul NInf PInf = NInf"

fun fdiv :: "fval \<Rightarrow> fval \<Rightarrow> fval" where
  "fdiv (Fin a) (Fin b) =
     (if b \<noteq> 0 then Fin (a / b)
      else if 0 < a then PInf else if a < 0 then NInf else NaN)"
| "fdiv NaN _ = NaN"
| "fdiv _ NaN = NaN"
| "fdiv (Fin a) _ = Fin 0"
| "fdiv PInf (Fin b) = (if 0 \<le> b then PInf else NInf)"
| "fdiv NInf (Fin b) = (if 0 \<le> b then NInf else PInf)"
| "fdiv _ _ = NaN"

fun fgt :: "fval \<Rightarrow> fval \<Rightarrow> bool" where
  "fgt (Fin a) (Fin b) = (b < a)"
| "fgt NaN _ = False"
| "fgt _ NaN = False"
| "fgt PInf PInf = False"
| "fgt PInf _ = True"
| "fgt _ PInf = False"
| "fgt NInf _ = False"
| "fgt _ NInf = True"

definition flt :: "fval \<Rightarrow> fval \<Rightarrow> bool" where
  "flt a b = fgt b a"

fun fle :: "fval \<Rightarrow> fval \<Rightarrow> bool" where
  "fle (Fin a) (Fin b) = (a \<le> b)"
| "fle NaN _ = False"
| "fle _ NaN = False"
| "fle NInf _ = True"
| "fle _ PInf = True"
| "fle _ _ = False"

fun feq :: "fval \<Rightarrow> fval \<Rightarrow> bool" where
  "feq NaN _ = False"
| "feq _ NaN = False"
| "feq a b = (a = b)"

definition fne :: "fval \<Rightarrow> fval \<Rightarrow> bool" where
  "fne a b = (\<not> feq a b)"

section \<open>The data frame\<close>

text \<open>
  The frame the stages work on: the date index and the columns, addressed by name. All
  stages mutate the frame they are given and return it; the model passes the frame
  explicitly. The order in which a frame displays its columns is not modelled.
\<close>

type_synonym date = int

record frame =
  index :: "date list"
  columns :: "string \<rightharpoonup> fval list"

datatype error = KeyError string | ValueError string | IndexError string

text \<open>\<^verbatim>\<open>data[name]\<close>: the column, or KeyError when the frame has no such column.\<close>

definition getitem :: "frame \<Rightarrow> string \<Rightarrow> error + fval list" where
  "getitem data name =
     (case columns data name of None \<Rightarrow> Inl (KeyError name) | Some col \<Rightarrow> Inr col)"

text \<open>\<^verbatim>\<open>data[name] = col\<close>: adds the column, or replaces the one of that name.\<close>

definition setitem :: "frame \<Rightarrow> string \<Rightarrow> fval list \<Rightarrow> frame" where
  "setitem data name col = data\<lparr>columns := (columns data)(name \<mapsto> col)\<rparr>"

text \<open>
  The outcome of a stage: the frame as the stage left it, and the exception it raised,
  if any. \<open>raising data r k\<close> evaluates an expression that may raise: on an exception
  the stage ends there with the frame as it is at that point.
\<close>

type_synonym outcome = "frame \<times> error option"

definition raising :: "frame \<Rightarrow> error + 'a \<Rightarrow> ('a \<Rightarrow> outcome) \<Rightarrow> outcome" where
  "raising data r k = (case r of Inl e \<Rightarrow> (data, Some e) | Inr v \<Rightarrow> k v)"

section \<open>Rolling windows\<close>

text \<open>
  Both window kinds of pandas replace infinite cells by NaN before they compute
  (\<^verbatim>\<open>_prep_values\<close>).
\<close>

definition prep_values :: "fval list \<Rightarrow> fval list" where
  "prep_values xs = map (\<lambda>x. if is_inf x then NaN else x) xs"

text \<open>
  \<^verbatim>\<open>col.rolling(window=w).mean()\<close> with the default \<^verbatim>\<open>min_periods\<close> (the window): the cell
  at \<open>i\<close> is the mean of the \<open>w\<close> cells ending at \<open>i\<close> when there are \<open>w\<close> of them and none
  is NaN, and NaN otherwise. A negative window is refused when the window is built.
\<close>

definition window_mean :: "nat \<Rightarrow> fval list \<Rightarrow> nat \<Rightarrow> fval" where
  "window_mean w xs i =
     (if w = 0 \<or> i + 1 < w then NaN
      else let win = take w (drop (i + 1 - w) xs)
           in if list_all is_fin win then Fin (sum_list (map fin_val win) / real w)
              else NaN)"

definition rolling_mean :: "int \<Rightarrow> fval list \<Rightarrow> error + fval list" where
  "rolling_mean window xs =
     (if window < 0 then Inl (ValueError ''window must be an integer 0 or greater'')
      else Inr (map (window_mean (nat window) (prep_values xs)) [0..<length xs]))"

section \<open>Moving averages\<close>

definition calculate_moving_averages :: "frame \<Rightarrow> int \<Rightarrow> int \<Rightarrow> outcome" where
  "calculate_moving_averages data short_window long_window =
     raising data (getitem data ''Close'') (\<lambda>close.
     raising data (rolling_mean short_window close) (\<lambda>short_ma.
     let data1 = setitem data ''Short_MA'' short_ma in
     raising data1 (getitem data1 ''Close'') (\<lambda>close1.
     raising data1 (rolling_mean long_window close1) (\<lambda>long_ma.
     (setitem data1 ''Long_MA'' long_ma, None)))))"

text \<open>
  The moving average as the specification words it: undefined while fewer than \<open>w\<close>
  points are available, the arithmetic mean of \<open>close[i-w+1 .. i]\<close> from then on.
\<close>

definition sma_spec :: "nat \<Rightarrow> real list \<Rightarrow> fval list" where
  "sma_spec w cs =
     map (\<lambda>i. if i + 1 < w then NaN else Fin ((\<Sum>k = i + 1 - w..i. cs ! k) / real w))
       [0..<length cs]"

section \<open>Relative strength index\<close>

text \<open>\<^verbatim>\<open>col.diff()\<close>: NaN in the first cell, then each cell minus the one before.\<close>

definition diff :: "fval list \<Rightarrow> fval list" where
  "diff xs = (case xs of [] \<Rightarrow> [] | x # rest \<Rightarrow> NaN # map2 fsub rest xs)"

text \<open>\<^verbatim>\<open>col.where(cond, other)\<close>: the cell where the condition holds, \<open>other\<close> elsewhere.\<close>

definition series_where :: "fval list \<Rightarrow> bool list \<Rightarrow> fval \<Rightarrow> fval list" where
  "series_where xs cond other = map2 (\<lambda>x c. if c then x else other) xs cond"

text \<open>The two local series \<^verbatim>\<open>gain\<close> and \<^verbatim>\<open>loss\<close> of \<^verbatim>\<open>calculate_rsi\<close>.\<close>

definition rsi_gain :: "int \<Rightarrow> fval list \<Rightarrow> error + fval list" where
  "rsi_gain window delta =
     rolling_mean window (series_where delta (map (\<lambda>d. fgt d (Fin 0)) delta) (Fin 0))"

definition rsi_loss :: "int \<Rightarrow> fval list \<Rightarrow> error + fval list" where
  "rsi_loss window delta =
     rolling_mean window
       (map fneg (series_where delta (map (\<lambda>d. flt d (Fin 0)) delta) (Fin 0)))"

definition rsi_of_rs :: "fval \<Rightarrow> fval" where
  "rsi_of_rs rs = fsub (Fin 100) (fdiv (Fin 100) (fadd (Fin 1) rs))"

definition calculate_rsi :: "frame \<Rightarrow> int \<Rightarrow> outcome" where
  "calculate_rsi data window =
     raising data (getitem data ''Close'') (\<lambda>close.
     let delta = diff close in
     raising data (rsi_gain window delta) (\<lambda>gain.
     raising data (rsi_loss window delta) (\<lambda>loss.
     let rs = map2 fdiv gain loss in
     (setitem data ''RSI'' (map rsi_of_rs rs), None))))"

text \<open>
  The gain and loss of a series of numbers as the program forms them before averaging:
  0 at the first date (the undefined change fails both comparisons), then the positive
  part of the change and the positive part of its negation.
\<close>

definition price_changes :: "real list \<Rightarrow> real list" where
  "price_changes cs = map2 (\<lambda>c prev. c - prev) (tl cs) cs"

definition gains :: "real list \<Rightarrow> real list" where
  "gains cs = (if cs = [] then [] else 0 # map (\<lambda>d. max d 0) (price_changes cs))"

definition losses :: "real list \<Rightarrow> real list" where
  "losses cs = (if cs = [] then [] else 0 # map (\<lambda>d. max (- d) 0) (price_changes cs))"

text \<open>A cell that is undefined or a number that is not negative.\<close>

fun nonneg_or_nan :: "fval \<Rightarrow> bool" where
  "nonneg_or_nan (Fin a) = (0 \<le> a)"
| "nonneg_or_nan NaN = True"
| "nonneg_or_nan _ = False"

section \<open>MACD\<close>

text \<open>
  \<^verbatim>\<open>col.ewm(span=s, adjust=False).mean()\<close>. The span \<open>spn\<close> must be at least 1. The smoothing
  factor is \<open>1 / (1 + com)\<close> with centre of mass \<open>com = (span - 1) / 2\<close>. The loop is
  the one of pandas with \<^verbatim>\<open>adjust=False\<close> and \<^verbatim>\<open>ignore_na=False\<close>: it starts from the first
  cell, skips the update when the running value already equals the new cell, lets the
  weight of the running value decay over NaN cells, and restarts from the first number
  while the running value is NaN.
\<close>

fun ewm_loop :: "real \<Rightarrow> fval \<Rightarrow> real \<Rightarrow> fval list \<Rightarrow> fval list" where
  "ewm_loop alpha weighted old_wt [] = []"
| "ewm_loop alpha weighted old_wt (cur # rest) =
     (if \<not> is_nan weighted then
        (if \<not> is_nan cur then
           let old_wt1 = old_wt * (1 - alpha);
               weighted1 =
                 (if fne weighted cur
                  then fdiv (fadd (fmul (Fin old_wt1) weighted) (fmul (Fin alpha) cur))
                         (Fin (old_wt1 + alpha))
                  else weighted)
           in weighted1 # ewm_loop alpha weighted1 1 rest
         else weighted # ewm_loop alpha weighted (old_wt * (1 - alpha)) rest)
      else if \<not> is_nan cur then cur # ewm_loop alpha cur old_wt rest
      else weighted # ewm_loop alpha weighted old_wt rest)"

definition ewm_alpha :: "int \<Rightarrow> real" where
  "ewm_alpha spn = 1 / (1 + (real_of_int spn - 1) / 2)"

definition ewm_mean :: "int \<Rightarrow> fval list \<Rightarrow> error + fval list" where
  "ewm_mean spn xs =
     (if spn < 1 then Inl (ValueError ''span must satisfy: span >= 1'')
      else Inr (case prep_values xs of
                  [] \<Rightarrow> []
                | x # rest \<Rightarrow> x # ewm_loop (ewm_alpha spn) x 1 rest))"

definition calculate_macd :: "frame \<Rightarrow> int \<Rightarrow> int \<Rightarrow> int \<Rightarrow> outcome" where
  "calculate_macd data short_window long_window signal_window =
     raising data (getitem data ''Close'') (\<lambda>close.
     raising data (ewm_mean short_window close) (\<lambda>ema_short.
     raising data (getitem data ''Close'') (\<lambda>close1.
     raising data (ewm_mean long_window close1) (\<lambda>ema_long.
     let data1 = setitem data ''MACD'' (map2 fsub ema_short ema_long) in
     raising data1 (getitem data1 ''MACD'') (\<lambda>macd.
     raising data1 (ewm_mean signal_window macd) (\<lambda>signal_line.
     (setitem data1 ''Signal_Line'' signal_line, None)))))))"

text \<open>
  The exponential moving average as the specification words it: seeded at the first
  data point, then \<open>ema[i] = alpha * close[i] + (1 - alpha) * ema[i-1]\<close>.
\<close>

fun ema_from :: "real \<Rightarrow> real \<Rightarrow> real list \<Rightarrow> real list" where
  "ema_from alpha prev [] = []"
| "ema_from alpha prev (c # cs) =
     (alpha * c + (1 - alpha) * prev) # ema_from alpha (alpha * c + (1 - alpha) * prev) cs"

fun ema_spec :: "real \<Rightarrow> real list \<Rightarrow> real list" where
  "ema_spec alpha [] = []"
| "ema_spec alpha (c # cs) = c # ema_from alpha c cs"

section \<open>Signals and the recommendation\<close>

text \<open>\<^verbatim>\<open>col[mask] = v\<close>: the cells under the mask become \<open>v\<close>.\<close>

definition mask_assign :: "fval list \<Rightarrow> bool list \<Rightarrow> fval \<Rightarrow> fval list" where
  "mask_assign xs msk v = map2 (\<lambda>x m. if m then v else x) xs msk"

text \<open>
  \<^verbatim>\<open>data[name][mask] = v\<close> is a chained assignment: it writes into the column object
  that \<^verbatim>\<open>data[name]\<close> returned. Whether the frame sees the write depends on the pandas
  the program runs on, and the program pins no version. Without copy-on-write (pandas
  before 3) the column object is the frame's own and the frame holds the written
  column afterwards; with copy-on-write (pandas 3 and later) the write goes to a
  temporary object and the frame is left as it was. Neither raises.
\<close>

definition chained_setitem :: "bool \<Rightarrow> frame \<Rightarrow> string \<Rightarrow> fval list \<Rightarrow> frame" where
  "chained_setitem copy_on_write data name col =
     (if copy_on_write then data else setitem data name col)"

text \<open>
  \<^verbatim>\<open>identify_signals\<close> first stores the column of zeros, then assigns through
  \<^verbatim>\<open>data['Signal'][mask]\<close> twice. The first argument says whether pandas runs with
  copy-on-write.
\<close>

definition identify_signals :: "bool \<Rightarrow> frame \<Rightarrow> outcome" where
  "identify_signals copy_on_write data =
     (let data1 = setitem data ''Signal'' (replicate (length (index data)) (Fin 0)) in
      raising data1 (getitem data1 ''Signal'') (\<lambda>signal.
      raising data1 (getitem data1 ''Short_MA'') (\<lambda>short_ma.
      raising data1 (getitem data1 ''Long_MA'') (\<lambda>long_ma.
      let data2 = chained_setitem copy_on_write data1 ''Signal''
                    (mask_assign signal (map2 fgt short_ma long_ma) (Fin 1)) in
      raising data2 (getitem data2 ''Signal'') (\<lambda>signal2.
      raising data2 (getitem data2 ''Short_MA'') (\<lambda>short_ma2.
      raising data2 (getitem data2 ''Long_MA'') (\<lambda>long_ma2.
      (chained_setitem copy_on_write data2 ''Signal''
         (mask_assign signal2 (map2 fle short_ma2 long_ma2) (Fin (- 1))), None))))))))"

text \<open>
  The column the signal stage leaves in a frame of \<open>n\<close> dates that holds both moving
  averages: the two masked writes over the zeros without copy-on-write, the zeros
  themselves with it.
\<close>

definition signal_column :: "bool \<Rightarrow> nat \<Rightarrow> fval list \<Rightarrow> fval list \<Rightarrow> fval list" where
  "signal_column copy_on_write n short_ma long_ma =
     (if copy_on_write then replicate n (Fin 0)
      else mask_assign
             (mask_assign (replicate n (Fin 0)) (map2 fgt short_ma long_ma) (Fin 1))
             (map2 fle short_ma long_ma) (Fin (- 1)))"



text \<open>Running one stage after another: an exception ends the run.\<close>

definition then_stage :: "outcome \<Rightarrow> (frame \<Rightarrow> outcome) \<Rightarrow> outcome" where
  "then_stage r stage = (case r of (data, None) \<Rightarrow> stage data | (data, Some e) \<Rightarrow> (data, Some e))"



text \<open>
  A frame is well formed when every column has one cell for each date of the index,
  as every pandas frame is.
\<close>

definition wf_frame :: "frame \<Rightarrow> bool" where
  "wf_frame data = (\<forall>name col. columns data name = Some col \<longrightarrow> length col = length (index data))"

text \<open>
  What a stage may do to the frame it is given: it keeps the index and every column
  whose name is not one of its own, and it leaves a well-formed frame well formed.
\<close>

definition frame_preserved :: "string set \<Rightarrow> frame \<Rightarrow> frame \<Rightarrow> bool" where
  "frame_preserved own data data' =
     (index data' = index data
      \<and> (\<forall>name. name \<notin> own \<longrightarrow> columns data' name = columns data name)
      \<and> (wf_frame data \<longrightarrow> wf_frame data'))"

section \<open>Moving averages: the undefined prefix and the mean\<close>

lemma prep_values_Fin: "prep_values (map Fin cs) = map Fin cs"
  by (simp add: prep_values_def)

lemma length_prep_values: "length (prep_values xs) = length xs"
  by (simp add: prep_values_def)

lemma sum_list_window:
  fixes cs :: "real list"
  assumes "j + w \<le> length cs"
  shows "sum_list (take w (drop j cs)) = (\<Sum>k = j..<j + w. cs ! k)"
proof -
  have len: "length (take w (drop j cs)) = w" using assms by simp
  have "sum_list (take w (drop j cs)) = (\<Sum>i = 0..<w. take w (drop j cs) ! i)"
    using sum_list_sum_nth [of "take w (drop j cs)"] len by simp
  also have "\<dots> = (\<Sum>i = 0..<w. cs ! (j + i))"
    using assms by (intro sum.cong) auto
  also have "\<dots> = (\<Sum>k = j..<j + w. cs ! k)"
    using sum.shift_bounds_nat_ivl [of "\<lambda>k. cs ! k" 0 j w] by (simp add: add.commute)
  finally show ?thesis .
qed

lemma window_mean_Fin:
  assumes "i < length cs" and "0 < w" and "w \<le> i + 1"
  shows "window_mean w (map Fin cs) i = Fin ((\<Sum>k = i + 1 - w..i. cs ! k) / real w)"
proof -
  define j where "j = i + 1 - w"
  have jw: "j + w \<le> length cs" using assms by (simp add: j_def)
  have fin: "list_all is_fin (take w (drop j (map Fin cs)))"
    by (simp add: list_all_iff drop_map take_map)
  have m: "map fin_val (take w (drop j (map Fin cs))) = take w (drop j cs)"
    by (simp add: drop_map take_map comp_def)
  have e: "j + w = Suc i" using assms by (simp add: j_def)
  have "sum_list (take w (drop j cs)) = (\<Sum>k = j..<Suc i. cs ! k)"
    using sum_list_window [OF jw] by (simp only: e)
  then have s: "sum_list (map fin_val (take w (drop j (map Fin cs)))) = (\<Sum>k = j..i. cs ! k)"
    by (simp only: m atLeastLessThanSuc_atLeastAtMost)
  have "window_mean w (map Fin cs) i =
          (let win = take w (drop j (map Fin cs))
           in if list_all is_fin win then Fin (sum_list (map fin_val win) / real w) else NaN)"
    using assms by (simp add: window_mean_def j_def)
  also have "\<dots> = Fin ((\<Sum>k = j..i. cs ! k) / real w)"
    by (simp only: Let_def fin s if_True)
  finally show ?thesis by (simp only: j_def)
qed

lemma window_mean_prefix: "i + 1 < w \<Longrightarrow> window_mean w xs i = NaN"
  by (simp add: window_mean_def)

lemma rolling_mean_Fin:
  assumes "1 \<le> window"
  shows "rolling_mean window (map Fin cs) = Inr (sma_spec (nat window) cs)"
proof -
  have "map (window_mean (nat window) (map Fin cs)) [0..<length cs] = sma_spec (nat window) cs"
    unfolding sma_spec_def
  proof (rule map_cong [OF refl])
    fix i assume "i \<in> set [0..<length cs]"
    then have i: "i < length cs" by simp
    show "window_mean (nat window) (map Fin cs) i =
      (if i + 1 < nat window then NaN else Fin ((\<Sum>k = i + 1 - nat window..i. cs ! k) / real (nat window)))"
    proof (cases "i + 1 < nat window")
      case True
      then show ?thesis by (simp add: window_mean_prefix)
    next
      case False
      then show ?thesis using i assms window_mean_Fin [of i cs "nat window"] by simp
    qed
  qed
  then show ?thesis using assms by (simp add: rolling_mean_def prep_values_Fin)
qed

lemma sma_spec_short:
  assumes "length cs < w"
  shows "sma_spec w cs = replicate (length cs) NaN"
proof -
  have "sma_spec w cs = map (\<lambda>i. NaN) [0..<length cs]"
    unfolding sma_spec_def using assms by (intro map_cong) auto
  then show ?thesis by (simp add: map_replicate_const)
qed

text \<open>
  Claim C5. On a close column of numbers and windows of at least 1, the moving-average
  stage raises nothing and stores, for each window \<open>w\<close>, a column that is undefined at
  the first \<open>w - 1\<close> dates and holds the arithmetic mean of \<open>close[i-w+1 .. i]\<close> at
  every later date \<open>i\<close>; on a series shorter than the window the whole column is
  undefined.
\<close>

theorem moving_averages_prefix_and_mean:
  assumes "columns data ''Close'' = Some (map Fin cs)"
    and "1 \<le> short_window" and "1 \<le> long_window"
  shows "calculate_moving_averages data short_window long_window =
           (setitem (setitem data ''Short_MA'' (sma_spec (nat short_window) cs))
              ''Long_MA'' (sma_spec (nat long_window) cs), None)
         \<and> (length cs < nat short_window \<longrightarrow>
              sma_spec (nat short_window) cs = replicate (length cs) NaN)
         \<and> (length cs < nat long_window \<longrightarrow>
              sma_spec (nat long_window) cs = replicate (length cs) NaN)"
  using assms
  by (simp add: calculate_moving_averages_def raising_def getitem_def setitem_def
      rolling_mean_Fin sma_spec_short)

theorem moving_averages_prefix_and_mean_witness:
  "calculate_moving_averages
     \<lparr>index = [0, 1, 2], columns = [''Close'' \<mapsto> [Fin 1, Fin 2, Fin 6]]\<rparr> 2 3 =
   (\<lparr>index = [0, 1, 2],
     columns = [''Close'' \<mapsto> [Fin 1, Fin 2, Fin 6],
                ''Short_MA'' \<mapsto> [NaN, Fin (3 / 2), Fin 4],
                ''Long_MA'' \<mapsto> [NaN, NaN, Fin 3]]\<rparr>, None)"
  using moving_averages_prefix_and_mean
    [of "\<lparr>index = [0, 1, 2], columns = [''Close'' \<mapsto> [Fin 1, Fin 2, Fin 6]]\<rparr>" "[1, 2, 6]" 2 3]
  by (simp add: setitem_def sma_spec_def)

section \<open>The signal column\<close>

lemma fgt_or_fle: "\<not> is_nan a \<Longrightarrow> \<not> is_nan b \<Longrightarrow> fle a b = (\<not> fgt a b)"
  by (cases a; cases b) auto

lemma fgt_nan: "is_nan a \<or> is_nan b \<Longrightarrow> \<not> fgt a b \<and> \<not> fle a b"
  by (cases a; cases b) auto


lemma identify_signals_present:
  assumes "columns data ''Short_MA'' = Some short_ma"
    and "columns data ''Long_MA'' = Some long_ma"
  shows "identify_signals copy_on_write data =
           (setitem data ''Signal''
              (signal_column copy_on_write (length (index data)) short_ma long_ma), None)"
  using assms
  by (cases copy_on_write)
    (simp_all add: identify_signals_def chained_setitem_def signal_column_def raising_def
      getitem_def setitem_def Let_def)


lemma length_mask_assign: "length (mask_assign xs msk v) = min (length xs) (length msk)"
  by (simp add: mask_assign_def)


lemma length_signal_column:
  assumes "length short_ma = n" and "length long_ma = n"
  shows "length (signal_column copy_on_write n short_ma long_ma) = n"
  using assms by (simp add: signal_column_def length_mask_assign)




section \<open>The signal stage without the moving averages\<close>

lemma identify_signals_missing:
  assumes "columns data ''Short_MA'' = None \<or> columns data ''Long_MA'' = None"
  shows "identify_signals copy_on_write data =
           (setitem data ''Signal'' (replicate (length (index data)) (Fin 0)),
            Some (KeyError (if columns data ''Short_MA'' = None then ''Short_MA''
                            else ''Long_MA'')))"
  using assms
  by (auto simp: identify_signals_def raising_def getitem_def setitem_def Let_def
      split: option.splits)

text \<open>
  Claim C3, as the code has it. The program has no precondition error: on a frame that
  lacks a moving-average column the signal stage ends at once with the KeyError of the
  first missing column, Short_MA before Long_MA, and computes no signal. This does not
  depend on the pandas mode: the lookup fails before any chained assignment.
\<close>

theorem missing_average_raises_key_error:
  assumes "columns data ''Short_MA'' = None \<or> columns data ''Long_MA'' = None"
  shows "snd (identify_signals copy_on_write data) =
           Some (KeyError (if columns data ''Short_MA'' = None then ''Short_MA''
                           else ''Long_MA''))"
  using identify_signals_missing [OF assms] by simp

theorem missing_average_raises_key_error_witness:
  "snd (identify_signals False
     \<lparr>index = [0], columns = [''Close'' \<mapsto> [Fin 10], ''Short_MA'' \<mapsto> [Fin 10]]\<rparr>) =
   Some (KeyError ''Long_MA'')
   \<and> snd (identify_signals True
     \<lparr>index = [0], columns = [''Close'' \<mapsto> [Fin 10], ''Short_MA'' \<mapsto> [Fin 10]]\<rparr>) =
   Some (KeyError ''Long_MA'')"
  using missing_average_raises_key_error
    [of "\<lparr>index = [0], columns = [''Close'' \<mapsto> [Fin 10], ''Short_MA'' \<mapsto> [Fin 10]]\<rparr>" False]
    missing_average_raises_key_error
    [of "\<lparr>index = [0], columns = [''Close'' \<mapsto> [Fin 10], ''Short_MA'' \<mapsto> [Fin 10]]\<rparr>" True]
  by simp

text \<open>
  The claim as stated asks for a PreconditionError and no signal column. On a frame
  with only the close column the stage raises KeyError, after it has stored the column
  of zeros, in either pandas mode.
\<close>

theorem signals_before_averages_key_error:
  "identify_signals False \<lparr>index = [0], columns = [''Close'' \<mapsto> [Fin 10]]\<rparr> =
   (\<lparr>index = [0], columns = [''Close'' \<mapsto> [Fin 10], ''Signal'' \<mapsto> [Fin 0]]\<rparr>,
    Some (KeyError ''Short_MA''))
   \<and> identify_signals True \<lparr>index = [0], columns = [''Close'' \<mapsto> [Fin 10]]\<rparr> =
   (\<lparr>index = [0], columns = [''Close'' \<mapsto> [Fin 10], ''Signal'' \<mapsto> [Fin 0]]\<rparr>,
    Some (KeyError ''Short_MA''))"
  by (simp add: identify_signals_def raising_def getitem_def setitem_def)

section \<open>The range of the signal and the recommendation\<close>





section \<open>Exponential moving averages and MACD\<close>

lemma length_ema_from: "length (ema_from alpha prev cs) = length cs"
  by (induction cs arbitrary: prev) simp_all

lemma length_ema_spec: "length (ema_spec alpha cs) = length cs"
  by (cases cs) (simp_all add: length_ema_from)

lemma ewm_loop_Fin:
  "ewm_loop alpha (Fin w) 1 (map Fin cs) = map Fin (ema_from alpha w cs)"
proof (induction cs arbitrary: w)
  case Nil
  show ?case by simp
next
  case (Cons c cs)
  have "ewm_loop alpha (Fin w) 1 (map Fin (c # cs)) =
          Fin (alpha * c + (1 - alpha) * w) #
          ewm_loop alpha (Fin (alpha * c + (1 - alpha) * w)) 1 (map Fin cs)"
    by (cases "w = c") (simp_all add: Let_def fne_def algebra_simps)
  then show ?case by (simp add: Cons.IH)
qed

lemma ewm_alpha_span: "1 \<le> spn \<Longrightarrow> ewm_alpha spn = 2 / (real_of_int spn + 1)"
  by (simp add: ewm_alpha_def field_simps)

lemma ewm_mean_Fin:
  assumes "1 \<le> spn"
  shows "ewm_mean spn (map Fin cs) = Inr (map Fin (ema_spec (ewm_alpha spn) cs))"
proof -
  have "ewm_mean spn (map Fin cs) =
          Inr (case map Fin cs of [] \<Rightarrow> []
               | x # rest \<Rightarrow> x # ewm_loop (ewm_alpha spn) x 1 rest)"
    using assms by (simp add: ewm_mean_def prep_values_Fin)
  also have "(case map Fin cs of [] \<Rightarrow> []
               | x # rest \<Rightarrow> x # ewm_loop (ewm_alpha spn) x 1 rest) =
             map Fin (ema_spec (ewm_alpha spn) cs)"
    by (cases cs) (simp_all add: ewm_loop_Fin)
  finally show ?thesis .
qed

lemma ema_from_const: "ema_from alpha c (replicate n c) = replicate n c"
  by (induction n) (simp_all add: algebra_simps)

lemma ema_spec_const: "ema_spec alpha (replicate n c) = replicate n c"
  by (cases n) (simp_all add: ema_from_const)

text \<open>
  Claim C8. For every span of at least 1 (smaller spans are refused), the smoothing
  factor is \<open>2 / (span + 1)\<close>, the exponential moving average of a column of numbers
  is the recursion seeded at the first data point, and on a constant column it returns
  that constant at every index.
\<close>

theorem ema_fixed_point_on_constants:
  assumes "1 \<le> spn"
  shows "ewm_alpha spn = 2 / (real_of_int spn + 1)
         \<and> ewm_mean spn (map Fin cs) = Inr (map Fin (ema_spec (2 / (real_of_int spn + 1)) cs))
         \<and> ewm_mean spn (replicate n (Fin c)) = Inr (replicate n (Fin c))"
proof -
  have a: "ewm_alpha spn = 2 / (real_of_int spn + 1)" using assms by (rule ewm_alpha_span)
  have "ewm_mean spn (map Fin (replicate n c)) =
          Inr (map Fin (ema_spec (ewm_alpha spn) (replicate n c)))"
    using assms by (rule ewm_mean_Fin)
  then have "ewm_mean spn (replicate n (Fin c)) = Inr (replicate n (Fin c))"
    by (simp add: ema_spec_const)
  then show ?thesis using a ewm_mean_Fin [OF assms, of cs] by simp
qed

theorem ema_fixed_point_on_constants_witness:
  "ewm_mean 12 [Fin 7, Fin 7, Fin 7] = Inr [Fin 7, Fin 7, Fin 7]
   \<and> ewm_alpha 12 = 2 / 13"
  using ema_fixed_point_on_constants [of 12 "[]" 3 7]
  by (simp add: numeral_3_eq_3)


lemma map2_fsub_Fin: "map2 fsub (map Fin xs) (map Fin ys) = map Fin (map2 (-) xs ys)"
  by (simp add: zip_map_map split_def fsub_def)

lemma calculate_macd_Fin:
  assumes "columns data ''Close'' = Some (map Fin cs)"
    and "1 \<le> short_window" and "1 \<le> long_window" and "1 \<le> signal_window"
  shows "calculate_macd data short_window long_window signal_window =
    (setitem
       (setitem data ''MACD''
          (map Fin (map2 (-) (ema_spec (ewm_alpha short_window) cs)
                             (ema_spec (ewm_alpha long_window) cs))))
       ''Signal_Line''
       (map Fin (ema_spec (ewm_alpha signal_window)
          (map2 (-) (ema_spec (ewm_alpha short_window) cs)
                    (ema_spec (ewm_alpha long_window) cs)))), None)"
  using assms
proof -
  let ?macd = "map2 (-) (ema_spec (ewm_alpha short_window) cs)
                        (ema_spec (ewm_alpha long_window) cs)"
  have e1: "ewm_mean short_window (map Fin cs) =
              Inr (map Fin (ema_spec (ewm_alpha short_window) cs))"
    using assms(2) by (rule ewm_mean_Fin)
  have e2: "ewm_mean long_window (map Fin cs) =
              Inr (map Fin (ema_spec (ewm_alpha long_window) cs))"
    using assms(3) by (rule ewm_mean_Fin)
  have e3: "ewm_mean signal_window (map Fin ?macd) =
              Inr (map Fin (ema_spec (ewm_alpha signal_window) ?macd))"
    using assms(4) by (rule ewm_mean_Fin)
  show ?thesis
    using assms(1)
    by (simp add: calculate_macd_def raising_def getitem_def e1 e2 e3 map2_fsub_Fin
        setitem_def Let_def del: map_map)
qed

lemma ema_spec_hd: "cs \<noteq> [] \<Longrightarrow> ema_spec alpha cs ! 0 = cs ! 0"
  by (cases cs) simp_all

text \<open>
  Claim C7. On a close column of numbers (spans of at least 1) the MACD stage raises
  nothing, and both the MACD and the signal-line column hold a number at every index,
  index 0 included; there \<open>macd[0] = close[0] - close[0] = 0\<close>.
\<close>

theorem macd_defined_from_first_index:
  assumes "columns data ''Close'' = Some (map Fin cs)"
    and "1 \<le> short_window" and "1 \<le> long_window" and "1 \<le> signal_window"
  shows "\<exists>macd signal_line.
           calculate_macd data short_window long_window signal_window =
             (setitem (setitem data ''MACD'' (map Fin macd))
                ''Signal_Line'' (map Fin signal_line), None)
           \<and> length macd = length cs \<and> length signal_line = length cs
           \<and> (cs \<noteq> [] \<longrightarrow> macd ! 0 = cs ! 0 - cs ! 0 \<and> macd ! 0 = 0 \<and> signal_line ! 0 = 0)"
proof -
  define macd where "macd = map2 (-) (ema_spec (ewm_alpha short_window) cs)
                                     (ema_spec (ewm_alpha long_window) cs)"
  define signal_line where "signal_line = ema_spec (ewm_alpha signal_window) macd"
  have run: "calculate_macd data short_window long_window signal_window =
             (setitem (setitem data ''MACD'' (map Fin macd))
                ''Signal_Line'' (map Fin signal_line), None)"
    unfolding macd_def signal_line_def using assms by (rule calculate_macd_Fin)
  have len: "length macd = length cs"
    by (simp add: macd_def length_ema_spec)
  then have len2: "length signal_line = length cs"
    by (simp add: signal_line_def length_ema_spec)
  have first: "macd ! 0 = cs ! 0 - cs ! 0 \<and> macd ! 0 = 0 \<and> signal_line ! 0 = 0" if "cs \<noteq> []"
  proof -
    have m: "macd ! 0 = cs ! 0 - cs ! 0"
      using that by (simp add: macd_def length_ema_spec ema_spec_hd)
    have "macd \<noteq> []" using that len by auto
    then have "signal_line ! 0 = macd ! 0" by (simp add: signal_line_def ema_spec_hd)
    then show ?thesis using m by simp
  qed
  show ?thesis using run len len2 first by blast
qed

theorem macd_defined_from_first_index_witness:
  "calculate_macd \<lparr>index = [0, 1], columns = [''Close'' \<mapsto> [Fin 10, Fin 13]]\<rparr> 1 2 1 =
   (\<lparr>index = [0, 1],
     columns = [''Close'' \<mapsto> [Fin 10, Fin 13], ''MACD'' \<mapsto> [Fin 0, Fin 1],
                ''Signal_Line'' \<mapsto> [Fin 0, Fin 1]]\<rparr>, None)"
  using macd_defined_from_first_index
    [of "\<lparr>index = [0, 1], columns = [''Close'' \<mapsto> [Fin 10, Fin 13]]\<rparr>" "[10, 13]" 1 2 1]
  by (simp add: calculate_macd_def raising_def getitem_def setitem_def ewm_mean_def
      ewm_alpha_def prep_values_def fne_def fsub_def Let_def)

section \<open>Relative strength index: the averaged gains and losses\<close>

lemma length_diff: "length (diff xs) = length xs"
  by (cases xs) (simp_all add: diff_def)

lemma series_where_map:
  "series_where xs (map p xs) other = map (\<lambda>x. if p x then x else other) xs"
  by (simp add: series_where_def zip_map2 zip_same_conv_map)

lemma rolling_mean_ok:
  "0 \<le> window \<Longrightarrow>
   rolling_mean window xs = Inr (map (window_mean (nat window) (prep_values xs)) [0..<length xs])"
  by (simp add: rolling_mean_def)

lemma window_mean_nonneg:
  assumes "\<forall>x \<in> set xs. nonneg_or_nan x"
  shows "nonneg_or_nan (window_mean w xs i)"
proof (cases "w = 0 \<or> i + 1 < w \<or> \<not> list_all is_fin (take w (drop (i + 1 - w) xs))")
  case True
  then show ?thesis by (auto simp: window_mean_def Let_def)
next
  case False
  let ?win = "take w (drop (i + 1 - w) xs)"
  have "\<forall>x \<in> set ?win. nonneg_or_nan x"
    using assms by (meson in_set_dropD in_set_takeD)
  then have "\<forall>x \<in> set ?win. 0 \<le> fin_val x"
    by (metis fin_val.elims nonneg_or_nan.simps(1) order_refl)
  then have "0 \<le> sum_list (map fin_val ?win)"
    by (intro sum_list_nonneg) auto
  then show ?thesis using False by (simp add: window_mean_def Let_def)
qed

lemma gain_cell_nonneg: "fgt d (Fin 0) \<Longrightarrow> \<not> is_inf d \<Longrightarrow> nonneg_or_nan d"
  by (cases d) auto

lemma loss_cell_nonneg: "flt d (Fin 0) \<Longrightarrow> \<not> is_inf (fneg d) \<Longrightarrow> nonneg_or_nan (fneg d)"
  by (cases d) (auto simp: flt_def)

lemma gain_raw_nonneg:
  "\<forall>x \<in> set (prep_values (series_where delta (map (\<lambda>d. fgt d (Fin 0)) delta) (Fin 0))).
     nonneg_or_nan x"
  by (auto simp: series_where_map prep_values_def gain_cell_nonneg)

lemma loss_raw_nonneg:
  "\<forall>x \<in> set (prep_values
       (map fneg (series_where delta (map (\<lambda>d. flt d (Fin 0)) delta) (Fin 0)))).
     nonneg_or_nan x"
  by (auto simp: series_where_map prep_values_def loss_cell_nonneg)

lemma rsi_of_rs_range:
  assumes "nonneg_or_nan g" and "nonneg_or_nan l"
  shows "rsi_of_rs (fdiv g l) = NaN
         \<or> (\<exists>r. rsi_of_rs (fdiv g l) = Fin r \<and> 0 \<le> r \<and> r \<le> 100)"
proof (cases g)
  case (Fin a)
  note g = this
  show ?thesis
  proof (cases l)
    case (Fin b)
    show ?thesis
    proof (cases "b = 0")
      case True
      then show ?thesis using g Fin assms by (auto simp: rsi_of_rs_def fsub_def)
    next
      case False
      then have "0 < b" using assms Fin by simp
      moreover have "0 \<le> a" using assms g by simp
      ultimately have "0 \<le> a / b" by simp
      then have "0 < 1 + a / b" by linarith
      moreover have "100 / (1 + a / b) \<le> 100 / 1"
        using \<open>0 \<le> a / b\<close> by (intro divide_left_mono) auto
      ultimately show ?thesis
        using g Fin False \<open>0 \<le> a / b\<close> by (simp add: rsi_of_rs_def fsub_def)
    qed
  qed (use assms g in \<open>auto simp: rsi_of_rs_def fsub_def\<close>)
qed (use assms in \<open>auto simp: rsi_of_rs_def fsub_def\<close>)


lemma rsi_gain_eq:
  "0 \<le> window \<Longrightarrow>
   rsi_gain window delta =
     Inr (map (window_mean (nat window)
            (prep_values (series_where delta (map (\<lambda>d. fgt d (Fin 0)) delta) (Fin 0))))
          [0..<length delta])"
  by (simp add: rsi_gain_def rolling_mean_def series_where_map)

lemma rsi_loss_eq:
  "0 \<le> window \<Longrightarrow>
   rsi_loss window delta =
     Inr (map (window_mean (nat window)
            (prep_values
               (map fneg (series_where delta (map (\<lambda>d. flt d (Fin 0)) delta) (Fin 0)))))
          [0..<length delta])"
  by (simp add: rsi_loss_def rolling_mean_def series_where_map)

lemma calculate_rsi_eq:
  assumes "columns data ''Close'' = Some close"
    and "rsi_gain window (diff close) = Inr gain"
    and "rsi_loss window (diff close) = Inr loss"
  shows "calculate_rsi data window =
           (setitem data ''RSI'' (map rsi_of_rs (map2 fdiv gain loss)), None)"
  using assms by (simp add: calculate_rsi_def raising_def getitem_def Let_def)

lemma rsi_nth:
  assumes "length gain = n" and "length loss = n" and "i < n"
  shows "map rsi_of_rs (map2 fdiv gain loss) ! i = rsi_of_rs (fdiv (gain ! i) (loss ! i))"
  using assms by simp

text \<open>The series on a column of numbers.\<close>

lemma length_price_changes: "length (price_changes cs) = length cs - 1"
  by (simp add: price_changes_def)

lemma price_changes_nth:
  "Suc k < length cs \<Longrightarrow> price_changes cs ! k = cs ! Suc k - cs ! k"
  by (simp add: price_changes_def nth_tl)

lemma length_gains: "length (gains cs) = length cs"
  by (cases cs) (simp_all add: gains_def length_price_changes)

lemma length_losses: "length (losses cs) = length cs"
  by (cases cs) (simp_all add: losses_def length_price_changes)

lemma gains_Suc:
  "Suc k < length cs \<Longrightarrow> gains cs ! Suc k = max (cs ! Suc k - cs ! k) 0"
  by (cases cs) (simp_all add: gains_def length_price_changes price_changes_nth)

lemma losses_Suc:
  "Suc k < length cs \<Longrightarrow> losses cs ! Suc k = max (- (cs ! Suc k - cs ! k)) 0"
  by (cases cs) (simp_all add: losses_def length_price_changes price_changes_nth)

lemma gains_0: "cs \<noteq> [] \<Longrightarrow> gains cs ! 0 = 0"
  by (simp add: gains_def)

lemma losses_0: "cs \<noteq> [] \<Longrightarrow> losses cs ! 0 = 0"
  by (simp add: losses_def)

lemma diff_Fin:
  "diff (map Fin cs) = (if cs = [] then [] else NaN # map Fin (price_changes cs))"
proof (cases cs)
  case Nil
  then show ?thesis by (simp add: diff_def)
next
  case (Cons a list)
  then have "diff (map Fin cs) = NaN # map2 fsub (map Fin (tl cs)) (map Fin cs)"
    by (simp add: diff_def)
  also have "\<dots> = NaN # map Fin (price_changes cs)"
    by (simp only: map2_fsub_Fin price_changes_def)
  finally show ?thesis using Cons by simp
qed

lemma gain_raw_Fin:
  "series_where (diff (map Fin cs)) (map (\<lambda>d. fgt d (Fin 0)) (diff (map Fin cs))) (Fin 0) =
   map Fin (gains cs)"
  by (simp add: series_where_map diff_Fin gains_def max_def)

lemma loss_raw_Fin:
  "map fneg (series_where (diff (map Fin cs)) (map (\<lambda>d. flt d (Fin 0)) (diff (map Fin cs)))
     (Fin 0)) = map Fin (losses cs)"
  by (simp add: series_where_map diff_Fin losses_def max_def flt_def)

lemma rsi_gain_Fin:
  "1 \<le> window \<Longrightarrow> rsi_gain window (diff (map Fin cs)) = Inr (sma_spec (nat window) (gains cs))"
  by (simp only: rsi_gain_def gain_raw_Fin rolling_mean_Fin)

lemma rsi_loss_Fin:
  "1 \<le> window \<Longrightarrow> rsi_loss window (diff (map Fin cs)) = Inr (sma_spec (nat window) (losses cs))"
  by (simp only: rsi_loss_def loss_raw_Fin rolling_mean_Fin)

lemma sma_spec_nth:
  "i < length cs \<Longrightarrow>
   sma_spec w cs ! i =
     (if i + 1 < w then NaN else Fin ((\<Sum>k = i + 1 - w..i. cs ! k) / real w))"
  by (simp add: sma_spec_def)

lemma length_sma_spec: "length (sma_spec w cs) = length cs"
  by (simp add: sma_spec_def)

section \<open>Relative strength index: bounds and saturation\<close>

text \<open>A strictly increasing series: every change after the first date is a gain.\<close>

lemma increasing_gains_pos:
  assumes "sorted_wrt (<) cs" and "Suc k < length cs"
  shows "0 < gains cs ! Suc k"
proof -
  have "cs ! k < cs ! Suc k"
    using assms by (simp add: sorted_wrt_iff_nth_less)
  then show ?thesis using assms(2) by (simp add: gains_Suc)
qed

lemma increasing_losses_zero:
  assumes "sorted_wrt (<) cs" and "k < length cs"
  shows "losses cs ! k = 0"
proof (cases k)
  case 0
  then show ?thesis using assms(2) by (auto simp: losses_0)
next
  case (Suc j)
  then have "cs ! j < cs ! Suc j"
    using assms by (simp add: sorted_wrt_iff_nth_less)
  then show ?thesis using assms(2) Suc by (simp add: losses_Suc)
qed

lemma increasing_avg_gain_pos:
  assumes "sorted_wrt (<) cs" and "0 < w" and "w \<le> i" and "i < length cs"
  shows "0 < (\<Sum>k = i + 1 - w..i. gains cs ! k) / real w"
proof -
  have "0 < gains cs ! k" if "k \<in> {i + 1 - w..i}" for k
  proof -
    from that assms have "0 < k" "k < length cs" by auto
    then obtain j where "k = Suc j" by (cases k) auto
    then show ?thesis using increasing_gains_pos [OF assms(1), of j] \<open>k < length cs\<close> by simp
  qed
  moreover have "{i + 1 - w..i} \<noteq> {}" using assms by auto
  ultimately have "0 < (\<Sum>k = i + 1 - w..i. gains cs ! k)"
    by (intro sum_pos) auto
  then show ?thesis using assms(2) by simp
qed

lemma increasing_avg_loss_zero:
  assumes "sorted_wrt (<) cs" and "i < length cs"
  shows "(\<Sum>k = i + 1 - w..i. losses cs ! k) / real w = 0"
proof -
  have "(\<Sum>k = i + 1 - w..i. losses cs ! k) = 0"
    using assms by (intro sum.neutral) (auto simp: increasing_losses_zero)
  then show ?thesis by simp
qed

text \<open>
  Claim C6. On every close column (window of at least 0) the RSI stage raises nothing
  and each RSI cell is either undefined or a number in \<open>[0, 100]\<close>; and on a strictly
  increasing series of numbers with window \<open>w \<ge> 1\<close> the RSI is 100 at every index
  from \<open>w\<close> on (the average loss is zero and the average gain positive there).
\<close>

theorem rsi_bounded_and_saturating:
  assumes "columns data ''Close'' = Some close" and "0 \<le> window"
  shows "\<exists>rsi. calculate_rsi data window = (setitem data ''RSI'' rsi, None)
           \<and> length rsi = length close
           \<and> (\<forall>i < length close.
                 rsi ! i = NaN \<or> (\<exists>r. rsi ! i = Fin r \<and> 0 \<le> r \<and> r \<le> 100))
           \<and> (\<forall>cs. 1 \<le> window \<and> close = map Fin cs \<and> sorted_wrt (<) cs \<longrightarrow>
                 (\<forall>i < length close. nat window \<le> i \<longrightarrow> rsi ! i = Fin 100))"
proof -
  define n where "n = length close"
  define gain where "gain = map (window_mean (nat window)
            (prep_values (series_where (diff close) (map (\<lambda>d. fgt d (Fin 0)) (diff close)) (Fin 0))))
          [0..<length (diff close)]"
  define loss where "loss = map (window_mean (nat window)
            (prep_values
               (map fneg (series_where (diff close) (map (\<lambda>d. flt d (Fin 0)) (diff close)) (Fin 0)))))
          [0..<length (diff close)]"
  define rsi where "rsi = map rsi_of_rs (map2 fdiv gain loss)"
  have g: "rsi_gain window (diff close) = Inr gain"
    unfolding gain_def using assms(2) by (rule rsi_gain_eq)
  have l: "rsi_loss window (diff close) = Inr loss"
    unfolding loss_def using assms(2) by (rule rsi_loss_eq)
  have run: "calculate_rsi data window = (setitem data ''RSI'' rsi, None)"
    unfolding rsi_def using assms(1) g l by (rule calculate_rsi_eq)
  have lg: "length gain = n" and ll: "length loss = n"
    by (simp_all add: gain_def loss_def length_diff n_def)
  then have len: "length rsi = n" by (simp add: rsi_def)
  have cell: "rsi ! i = rsi_of_rs (fdiv (gain ! i) (loss ! i))" if "i < n" for i
    unfolding rsi_def using lg ll that by (rule rsi_nth)
  have bounded: "rsi ! i = NaN \<or> (\<exists>r. rsi ! i = Fin r \<and> 0 \<le> r \<and> r \<le> 100)" if "i < n" for i
  proof -
    have "nonneg_or_nan (gain ! i)"
      using that by (simp add: gain_def length_diff n_def window_mean_nonneg gain_raw_nonneg
          del: nonneg_or_nan.simps)
    moreover have "nonneg_or_nan (loss ! i)"
      using that by (simp add: loss_def length_diff n_def window_mean_nonneg loss_raw_nonneg
          del: nonneg_or_nan.simps)
    ultimately show ?thesis using rsi_of_rs_range cell [OF that] by simp
  qed
  have saturated: "rsi ! i = Fin 100"
    if "1 \<le> window" and "close = map Fin cs" and "sorted_wrt (<) cs"
      and "i < n" and "nat window \<le> i" for cs i
  proof -
    have i: "i < length cs" using that by (simp add: n_def)
    have "Inr gain = Inr (sma_spec (nat window) (gains cs))"
      using g rsi_gain_Fin [OF that(1), of cs] that(2) by simp
    then have "gain ! i = Fin ((\<Sum>k = i + 1 - nat window..i. gains cs ! k) / real (nat window))"
      using i that by (simp add: sma_spec_nth length_gains)
    moreover have "Inr loss = Inr (sma_spec (nat window) (losses cs))"
      using l rsi_loss_Fin [OF that(1), of cs] that(2) by simp
    then have "loss ! i = Fin ((\<Sum>k = i + 1 - nat window..i. losses cs ! k) / real (nat window))"
      using i that by (simp add: sma_spec_nth length_losses)
    then have "loss ! i = Fin 0"
      by (simp only: increasing_avg_loss_zero [OF that(3) i])
    moreover have "0 < (\<Sum>k = i + 1 - nat window..i. gains cs ! k) / real (nat window)"
      using that i by (intro increasing_avg_gain_pos) auto
    ultimately show ?thesis using cell [OF that(4)] by (simp add: rsi_of_rs_def fsub_def)
  qed
  show ?thesis
    using run len bounded saturated unfolding n_def by blast
qed

theorem rsi_bounded_and_saturating_witness:
  "calculate_rsi \<lparr>index = [0, 1, 2, 3],
       columns = [''Close'' \<mapsto> [Fin 10, Fin 11, Fin 13, Fin 14]]\<rparr> 2 =
   (\<lparr>index = [0, 1, 2, 3],
     columns = [''Close'' \<mapsto> [Fin 10, Fin 11, Fin 13, Fin 14],
                ''RSI'' \<mapsto> [NaN, Fin 100, Fin 100, Fin 100]]\<rparr>, None)"
  using rsi_bounded_and_saturating
    [of "\<lparr>index = [0, 1, 2, 3],
       columns = [''Close'' \<mapsto> [Fin 10, Fin 11, Fin 13, Fin 14]]\<rparr>"
       "[Fin 10, Fin 11, Fin 13, Fin 14]" 2]
  by (simp add: calculate_rsi_def raising_def getitem_def setitem_def rsi_gain_def rsi_loss_def
      rolling_mean_def window_mean_def prep_values_def diff_def series_where_def rsi_of_rs_def
      fsub_def flt_def Let_def)

section \<open>Relative strength index: the indeterminate ratio\<close>

text \<open>A constant series: no gain and no loss at any date.\<close>

lemma gains_const: "gains (replicate n c) = replicate n 0"
proof (rule nth_equalityI)
  show "length (gains (replicate n c)) = length (replicate n (0::real))"
    by (simp add: length_gains)
  fix k assume "k < length (gains (replicate n c))"
  then have k: "k < n" by (simp add: length_gains)
  show "gains (replicate n c) ! k = replicate n 0 ! k"
  proof (cases k)
    case 0
    then show ?thesis using k by (simp add: gains_0)
  next
    case (Suc j)
    then show ?thesis using k by (simp add: gains_Suc)
  qed
qed

lemma losses_const: "losses (replicate n c) = replicate n 0"
proof (rule nth_equalityI)
  show "length (losses (replicate n c)) = length (replicate n (0::real))"
    by (simp add: length_losses)
  fix k assume "k < length (losses (replicate n c))"
  then have k: "k < n" by (simp add: length_losses)
  show "losses (replicate n c) ! k = replicate n 0 ! k"
  proof (cases k)
    case 0
    then show ?thesis using k by (simp add: losses_0)
  next
    case (Suc j)
    then show ?thesis using k by (simp add: losses_Suc)
  qed
qed

lemma sma_spec_zeros_nth:
  assumes "i < n"
  shows "sma_spec w (replicate n 0) ! i = (if i + 1 < w then NaN else Fin 0)"
proof -
  have "(\<Sum>k = i + 1 - w..i. replicate n (0::real) ! k) = 0"
    using assms by (intro sum.neutral) auto
  then show ?thesis using assms by (simp add: sma_spec_nth)
qed

text \<open>
  Claim C2. On every close column (window of at least 0) the RSI stage raises nothing,
  and at every index where the average gain and the average loss are both zero the RSI
  cell is undefined (NaN). On a constant series of numbers with window \<open>w \<ge> 1\<close> both
  averages are zero once the window has filled, and the whole RSI column is undefined.
\<close>

theorem rsi_indeterminate_is_undefined:
  assumes "columns data ''Close'' = Some close" and "0 \<le> window"
  shows "\<exists>gain loss rsi.
           rsi_gain window (diff close) = Inr gain
           \<and> rsi_loss window (diff close) = Inr loss
           \<and> calculate_rsi data window = (setitem data ''RSI'' rsi, None)
           \<and> length rsi = length close
           \<and> (\<forall>i < length close. gain ! i = Fin 0 \<and> loss ! i = Fin 0 \<longrightarrow> rsi ! i = NaN)
           \<and> (\<forall>c. 1 \<le> window \<and> close = replicate (length close) (Fin c) \<longrightarrow>
                 rsi = replicate (length close) NaN
                 \<and> (\<forall>i < length close. nat window \<le> i + 1 \<longrightarrow>
                       gain ! i = Fin 0 \<and> loss ! i = Fin 0))"
proof -
  define n where "n = length close"
  define gain where "gain = map (window_mean (nat window)
            (prep_values (series_where (diff close) (map (\<lambda>d. fgt d (Fin 0)) (diff close)) (Fin 0))))
          [0..<length (diff close)]"
  define loss where "loss = map (window_mean (nat window)
            (prep_values
               (map fneg (series_where (diff close) (map (\<lambda>d. flt d (Fin 0)) (diff close)) (Fin 0)))))
          [0..<length (diff close)]"
  define rsi where "rsi = map rsi_of_rs (map2 fdiv gain loss)"
  have g: "rsi_gain window (diff close) = Inr gain"
    unfolding gain_def using assms(2) by (rule rsi_gain_eq)
  have l: "rsi_loss window (diff close) = Inr loss"
    unfolding loss_def using assms(2) by (rule rsi_loss_eq)
  have run: "calculate_rsi data window = (setitem data ''RSI'' rsi, None)"
    unfolding rsi_def using assms(1) g l by (rule calculate_rsi_eq)
  have lg: "length gain = n" and ll: "length loss = n"
    by (simp_all add: gain_def loss_def length_diff n_def)
  then have len: "length rsi = n" by (simp add: rsi_def)
  have cell: "rsi ! i = rsi_of_rs (fdiv (gain ! i) (loss ! i))" if "i < n" for i
    unfolding rsi_def using lg ll that by (rule rsi_nth)
  have zero: "rsi ! i = NaN" if "i < n" and "gain ! i = Fin 0 \<and> loss ! i = Fin 0" for i
    using cell [OF that(1)] that(2) by (simp add: rsi_of_rs_def fsub_def)
  have const: "rsi = replicate n NaN
                 \<and> (\<forall>i < n. nat window \<le> i + 1 \<longrightarrow> gain ! i = Fin 0 \<and> loss ! i = Fin 0)"
    if "1 \<le> window" and "close = replicate n (Fin c)" for c
  proof -
    have close: "close = map Fin (replicate n c)" using that(2) by simp
    have "Inr gain = Inr (sma_spec (nat window) (gains (replicate n c)))"
      using g rsi_gain_Fin [OF that(1), of "replicate n c"] close by simp
    then have gi: "gain ! i = (if i + 1 < nat window then NaN else Fin 0)" if "i < n" for i
      using that by (simp add: gains_const sma_spec_zeros_nth)
    have "Inr loss = Inr (sma_spec (nat window) (losses (replicate n c)))"
      using l rsi_loss_Fin [OF that(1), of "replicate n c"] close by simp
    then have li: "loss ! i = (if i + 1 < nat window then NaN else Fin 0)" if "i < n" for i
      using that by (simp add: losses_const sma_spec_zeros_nth)
    have "rsi ! i = NaN" if "i < n" for i
      using cell [OF that] gi [OF that] li [OF that]
      by (cases "i + 1 < nat window") (simp_all add: rsi_of_rs_def fsub_def)
    then have "rsi = replicate n NaN"
      using len by (intro nth_equalityI) auto
    then show ?thesis using gi li by auto
  qed
  show ?thesis
    using g l run len zero const unfolding n_def by blast
qed

theorem rsi_indeterminate_is_undefined_witness:
  "calculate_rsi \<lparr>index = [0, 1, 2], columns = [''Close'' \<mapsto> [Fin 5, Fin 5, Fin 5]]\<rparr> 2 =
   (\<lparr>index = [0, 1, 2],
     columns = [''Close'' \<mapsto> [Fin 5, Fin 5, Fin 5], ''RSI'' \<mapsto> [NaN, NaN, NaN]]\<rparr>, None)
   \<and> rsi_gain 2 (diff [Fin 5, Fin 5, Fin 5]) = Inr [NaN, Fin 0, Fin 0]
   \<and> rsi_loss 2 (diff [Fin 5, Fin 5, Fin 5]) = Inr [NaN, Fin 0, Fin 0]"
  using rsi_indeterminate_is_undefined
    [of "\<lparr>index = [0, 1, 2], columns = [''Close'' \<mapsto> [Fin 5, Fin 5, Fin 5]]\<rparr>"
       "[Fin 5, Fin 5, Fin 5]" 2]
  by (simp add: calculate_rsi_def raising_def getitem_def setitem_def rsi_gain_def rsi_loss_def
      rolling_mean_def window_mean_def prep_values_def diff_def series_where_def rsi_of_rs_def
      fsub_def flt_def Let_def)

section \<open>Independence of the RSI and MACD stages\<close>

lemma setitem_commute:
  "n1 \<noteq> n2 \<Longrightarrow> setitem (setitem data n1 a) n2 b = setitem (setitem data n2 b) n1 a"
  by (simp add: setitem_def fun_upd_twist)

lemma columns_setitem: "columns (setitem data n a) m = (if m = n then Some a else columns data m)"
  by (simp add: setitem_def)

lemma index_setitem: "index (setitem data n a) = index data"
  by (simp add: setitem_def)

lemma calculate_rsi_shape:
  assumes "0 \<le> window"
  obtains f where "\<And>data. calculate_rsi data window =
     (case columns data ''Close'' of
        None \<Rightarrow> (data, Some (KeyError ''Close''))
      | Some close \<Rightarrow> (setitem data ''RSI'' (f close), None))"
proof
  fix data
  show "calculate_rsi data window =
     (case columns data ''Close'' of
        None \<Rightarrow> (data, Some (KeyError ''Close''))
      | Some close \<Rightarrow>
          (setitem data ''RSI''
             (map rsi_of_rs (map2 fdiv
                (map (window_mean (nat window)
                   (prep_values (series_where (diff close)
                      (map (\<lambda>d. fgt d (Fin 0)) (diff close)) (Fin 0))))
                   [0..<length (diff close)])
                (map (window_mean (nat window)
                   (prep_values (map fneg (series_where (diff close)
                      (map (\<lambda>d. flt d (Fin 0)) (diff close)) (Fin 0)))))
                   [0..<length (diff close)]))), None))"
  proof (cases "columns data ''Close''")
    case None
    then show ?thesis by (simp add: calculate_rsi_def raising_def getitem_def)
  next
    case (Some close)
    then show ?thesis
      using calculate_rsi_eq [OF Some rsi_gain_eq [OF assms] rsi_loss_eq [OF assms]]
      by simp
  qed
qed

lemma ewm_mean_ok:
  "1 \<le> spn \<Longrightarrow>
   ewm_mean spn xs =
     Inr (case prep_values xs of [] \<Rightarrow> []
          | x # rest \<Rightarrow> x # ewm_loop (ewm_alpha spn) x 1 rest)"
  by (simp add: ewm_mean_def)

lemma calculate_macd_shape:
  assumes "1 \<le> short_window" and "1 \<le> long_window" and "1 \<le> signal_window"
  obtains m s where "\<And>data. calculate_macd data short_window long_window signal_window =
     (case columns data ''Close'' of
        None \<Rightarrow> (data, Some (KeyError ''Close''))
      | Some close \<Rightarrow>
          (setitem (setitem data ''MACD'' (m close)) ''Signal_Line'' (s close), None))"
proof
  fix data
  let ?ema = "\<lambda>spn xs. case prep_values xs of [] \<Rightarrow> []
          | x # rest \<Rightarrow> x # ewm_loop (ewm_alpha spn) x 1 rest"
  let ?m = "\<lambda>close. map2 fsub (?ema short_window close) (?ema long_window close)"
  show "calculate_macd data short_window long_window signal_window =
     (case columns data ''Close'' of
        None \<Rightarrow> (data, Some (KeyError ''Close''))
      | Some close \<Rightarrow>
          (setitem (setitem data ''MACD'' (?m close)) ''Signal_Line''
             (?ema signal_window (?m close)), None))"
  proof (cases "columns data ''Close''")
    case None
    then show ?thesis by (simp add: calculate_macd_def raising_def getitem_def)
  next
    case (Some close)
    then show ?thesis
      by (simp add: calculate_macd_def raising_def getitem_def ewm_mean_ok assms
          columns_setitem Let_def)
  qed
qed

text \<open>
  Claim C9. With valid windows, running the RSI stage and then the MACD stage leaves
  the same frame and the same outcome as running them in the other order. Each of the
  two stages reads the close column only: on any two frames with the same close column
  (whatever else they hold, moving averages or not) it computes the same columns.
\<close>

theorem rsi_and_macd_commute:
  assumes "0 \<le> window"
    and "1 \<le> short_window" and "1 \<le> long_window" and "1 \<le> signal_window"
  shows "then_stage (calculate_rsi data window)
           (\<lambda>d. calculate_macd d short_window long_window signal_window) =
         then_stage (calculate_macd data short_window long_window signal_window)
           (\<lambda>d. calculate_rsi d window)
         \<and> (\<forall>data' close.
               columns data ''Close'' = Some close \<and> columns data' ''Close'' = Some close \<longrightarrow>
               columns (fst (calculate_rsi data' window)) ''RSI'' =
                 columns (fst (calculate_rsi data window)) ''RSI''
               \<and> columns (fst (calculate_macd data' short_window long_window signal_window))
                     ''MACD'' =
                   columns (fst (calculate_macd data short_window long_window signal_window))
                     ''MACD''
               \<and> columns (fst (calculate_macd data' short_window long_window signal_window))
                     ''Signal_Line'' =
                   columns (fst (calculate_macd data short_window long_window signal_window))
                     ''Signal_Line'')"
proof -
  obtain f where rsi: "\<And>data. calculate_rsi data window =
     (case columns data ''Close'' of
        None \<Rightarrow> (data, Some (KeyError ''Close''))
      | Some close \<Rightarrow> (setitem data ''RSI'' (f close), None))"
    using calculate_rsi_shape [OF assms(1)] by blast
  obtain m s where macd: "\<And>data. calculate_macd data short_window long_window signal_window =
     (case columns data ''Close'' of
        None \<Rightarrow> (data, Some (KeyError ''Close''))
      | Some close \<Rightarrow>
          (setitem (setitem data ''MACD'' (m close)) ''Signal_Line'' (s close), None))"
    using calculate_macd_shape [OF assms(2-4)] by blast
  have commute: "then_stage (calculate_rsi data window)
           (\<lambda>d. calculate_macd d short_window long_window signal_window) =
         then_stage (calculate_macd data short_window long_window signal_window)
           (\<lambda>d. calculate_rsi d window)"
  proof (cases "columns data ''Close''")
    case None
    then show ?thesis by (simp add: then_stage_def rsi macd)
  next
    case (Some close)
    have "setitem (setitem (setitem data ''RSI'' (f close)) ''MACD'' (m close))
            ''Signal_Line'' (s close) =
          setitem (setitem (setitem data ''MACD'' (m close)) ''Signal_Line'' (s close))
            ''RSI'' (f close)"
      by (simp add: setitem_def fun_upd_twist)
    then show ?thesis using Some by (simp add: then_stage_def rsi macd columns_setitem)
  qed
  have only_close: "columns (fst (calculate_rsi data' window)) ''RSI'' =
                 columns (fst (calculate_rsi data window)) ''RSI''
               \<and> columns (fst (calculate_macd data' short_window long_window signal_window))
                     ''MACD'' =
                   columns (fst (calculate_macd data short_window long_window signal_window))
                     ''MACD''
               \<and> columns (fst (calculate_macd data' short_window long_window signal_window))
                     ''Signal_Line'' =
                   columns (fst (calculate_macd data short_window long_window signal_window))
                     ''Signal_Line''"
    if "columns data ''Close'' = Some close \<and> columns data' ''Close'' = Some close"
    for data' close
    using that by (simp add: rsi macd columns_setitem)
  show ?thesis using commute only_close by blast
qed

theorem rsi_and_macd_commute_witness:
  "then_stage (calculate_rsi \<lparr>index = [0, 1], columns = [''Close'' \<mapsto> [Fin 10, Fin 13]]\<rparr> 1)
     (\<lambda>d. calculate_macd d 1 2 1) =
   (\<lparr>index = [0, 1],
     columns = [''Close'' \<mapsto> [Fin 10, Fin 13], ''MACD'' \<mapsto> [Fin 0, Fin 1],
                ''Signal_Line'' \<mapsto> [Fin 0, Fin 1], ''RSI'' \<mapsto> [NaN, Fin 100]]\<rparr>, None)"
  using rsi_and_macd_commute
    [of 1 1 2 1 "\<lparr>index = [0, 1], columns = [''Close'' \<mapsto> [Fin 10, Fin 13]]\<rparr>"]
  by (simp add: then_stage_def calculate_macd_def calculate_rsi_def raising_def getitem_def
      setitem_def ewm_mean_def ewm_alpha_def prep_values_def fne_def fsub_def Let_def
      rsi_gain_def rsi_loss_def rolling_mean_def window_mean_def diff_def series_where_def
      rsi_of_rs_def flt_def)

section \<open>What a stage leaves unchanged\<close>

lemma length_ewm_loop: "length (ewm_loop alpha weighted old_wt xs) = length xs"
  by (induction xs arbitrary: weighted old_wt) (simp_all add: Let_def)

lemma length_ewm_mean: "ewm_mean spn xs = Inr ys \<Longrightarrow> length ys = length xs"
  by (cases "prep_values xs")
    (auto simp: ewm_mean_def length_ewm_loop prep_values_def split: if_splits)

lemma length_rolling_mean: "rolling_mean window xs = Inr ys \<Longrightarrow> length ys = length xs"
  by (auto simp: rolling_mean_def split: if_splits)

lemma wf_frame_setitem:
  "wf_frame data \<Longrightarrow> length col = length (index data) \<Longrightarrow> wf_frame (setitem data name col)"
  by (simp add: wf_frame_def setitem_def)

lemma wf_frame_column:
  "wf_frame data \<Longrightarrow> columns data name = Some col \<Longrightarrow> length col = length (index data)"
  by (simp add: wf_frame_def)

lemma frame_preserved_refl: "frame_preserved own data data"
  by (simp add: frame_preserved_def)

lemma frame_preserved_setitem:
  assumes "frame_preserved own data data1" and "name \<in> own"
    and "wf_frame data \<Longrightarrow> length col = length (index data)"
  shows "frame_preserved own data (setitem data1 name col)"
  using assms
  by (auto simp: frame_preserved_def columns_setitem index_setitem wf_frame_setitem)

lemma frame_moving_averages:
  "frame_preserved {''Short_MA'', ''Long_MA''} data
     (fst (calculate_moving_averages data short_window long_window))"
proof (cases "columns data ''Close''")
  case None
  then show ?thesis
    by (simp add: calculate_moving_averages_def raising_def getitem_def frame_preserved_refl)
next
  case (Some close)
  have len: "length close = length (index data)" if "wf_frame data"
    using that Some by (rule wf_frame_column)
  show ?thesis
  proof (cases "rolling_mean short_window close")
    case (Inl e)
    then show ?thesis using Some
      by (simp add: calculate_moving_averages_def raising_def getitem_def frame_preserved_refl)
  next
    case (Inr short_ma)
    have 1: "frame_preserved {''Short_MA'', ''Long_MA''} data (setitem data ''Short_MA'' short_ma)"
      using len length_rolling_mean [OF Inr]
      by (intro frame_preserved_setitem frame_preserved_refl) auto
    show ?thesis
    proof (cases "rolling_mean long_window close")
      case (Inl e)
      then show ?thesis using Some Inr 1
        by (simp add: calculate_moving_averages_def raising_def getitem_def columns_setitem)
    next
      case long: (Inr long_ma)
      have "frame_preserved {''Short_MA'', ''Long_MA''} data
              (setitem (setitem data ''Short_MA'' short_ma) ''Long_MA'' long_ma)"
        using len length_rolling_mean [OF long]
        by (intro frame_preserved_setitem 1) auto
      then show ?thesis using Some Inr long
        by (simp add: calculate_moving_averages_def raising_def getitem_def columns_setitem)
    qed
  qed
qed


lemma frame_rsi: "frame_preserved {''RSI''} data (fst (calculate_rsi data window))"
proof (cases "columns data ''Close''")
  case None
  then show ?thesis
    by (simp add: calculate_rsi_def raising_def getitem_def frame_preserved_refl)
next
  case (Some close)
  have len: "length close = length (index data)" if "wf_frame data"
    using that Some by (rule wf_frame_column)
  show ?thesis
  proof (cases "rsi_gain window (diff close)")
    case (Inl e)
    then show ?thesis using Some
      by (simp add: calculate_rsi_def raising_def getitem_def frame_preserved_refl)
  next
    case (Inr gain)
    then have lg: "length gain = length close"
      by (auto simp: rsi_gain_def series_where_map length_diff dest: length_rolling_mean)
    show ?thesis
    proof (cases "rsi_loss window (diff close)")
      case (Inl e)
      then show ?thesis using Some Inr
        by (simp add: calculate_rsi_def raising_def getitem_def frame_preserved_refl)
    next
      case loss: (Inr loss)
      then have ll: "length loss = length close"
        by (auto simp: rsi_loss_def series_where_map length_diff dest: length_rolling_mean)
      have "frame_preserved {''RSI''} data
              (setitem data ''RSI'' (map rsi_of_rs (map2 fdiv gain loss)))"
        using len lg ll by (intro frame_preserved_setitem frame_preserved_refl) auto
      then show ?thesis using Some Inr loss
        by (simp add: calculate_rsi_def raising_def getitem_def Let_def)
    qed
  qed
qed

lemma frame_macd:
  "frame_preserved {''MACD'', ''Signal_Line''} data
     (fst (calculate_macd data short_window long_window signal_window))"
proof (cases "columns data ''Close''")
  case None
  then show ?thesis
    by (simp add: calculate_macd_def raising_def getitem_def frame_preserved_refl)
next
  case (Some close)
  have len: "length close = length (index data)" if "wf_frame data"
    using that Some by (rule wf_frame_column)
  show ?thesis
  proof (cases "ewm_mean short_window close")
    case (Inl e)
    then show ?thesis using Some
      by (simp add: calculate_macd_def raising_def getitem_def frame_preserved_refl)
  next
    case (Inr ema_short)
    show ?thesis
    proof (cases "ewm_mean long_window close")
      case (Inl e)
      then show ?thesis using Some Inr
        by (simp add: calculate_macd_def raising_def getitem_def frame_preserved_refl)
    next
      case long: (Inr ema_long)
      let ?macd = "map2 fsub ema_short ema_long"
      have lm: "length ?macd = length close"
        using length_ewm_mean [OF Inr] length_ewm_mean [OF long] by simp
      have 1: "frame_preserved {''MACD'', ''Signal_Line''} data (setitem data ''MACD'' ?macd)"
        using len lm by (intro frame_preserved_setitem frame_preserved_refl) auto
      show ?thesis
      proof (cases "ewm_mean signal_window ?macd")
        case (Inl e)
        then show ?thesis using Some Inr long 1
          by (simp add: calculate_macd_def raising_def getitem_def columns_setitem Let_def)
      next
        case sig: (Inr signal_line)
        have "frame_preserved {''MACD'', ''Signal_Line''} data
                (setitem (setitem data ''MACD'' ?macd) ''Signal_Line'' signal_line)"
          using len lm length_ewm_mean [OF sig]
          by (intro frame_preserved_setitem 1) auto
        then show ?thesis using Some Inr long sig
          by (simp add: calculate_macd_def raising_def getitem_def columns_setitem Let_def)
      qed
    qed
  qed
qed

lemma frame_signals:
  "frame_preserved {''Signal''} data (fst (identify_signals copy_on_write data))"
proof -
  let ?zeros = "replicate (length (index data)) (Fin 0)"
  have 0: "frame_preserved {''Signal''} data (setitem data ''Signal'' ?zeros)"
    by (intro frame_preserved_setitem frame_preserved_refl) auto
  show ?thesis
  proof (cases "columns data ''Short_MA'' = None \<or> columns data ''Long_MA'' = None")
    case True
    then show ?thesis using 0 by (simp add: identify_signals_missing)
  next
    case False
    then obtain short_ma long_ma where
      s: "columns data ''Short_MA'' = Some short_ma" and l: "columns data ''Long_MA'' = Some long_ma"
      by auto
    have "frame_preserved {''Signal''} data
            (setitem data ''Signal''
               (signal_column copy_on_write (length (index data)) short_ma long_ma))"
    proof (intro frame_preserved_setitem frame_preserved_refl)
      show "''Signal'' \<in> {''Signal''}" by simp
      assume wf: "wf_frame data"
      have "length short_ma = length (index data)" "length long_ma = length (index data)"
        using wf s l by (auto dest: wf_frame_column)
      then show "length (signal_column copy_on_write (length (index data)) short_ma long_ma) =
                   length (index data)"
        by (rule length_signal_column)
    qed
    then show ?thesis by (simp add: identify_signals_present [OF s l])
  qed
qed

text \<open>
  Claim C10. Each of the four stages, on any frame and with any windows, whether it
  returns or raises, keeps the date index and leaves every column unchanged except
  the columns of its own names (Short_MA and Long_MA; RSI; MACD and Signal_Line;
  Signal); and on a well-formed frame the columns it writes have one cell for each
  date, so the length of the series is kept. For the signal stage this holds in either
  pandas mode.
\<close>

theorem stages_preserve_frame:
  "frame_preserved {''Short_MA'', ''Long_MA''} data
     (fst (calculate_moving_averages data short_window long_window))
   \<and> frame_preserved {''RSI''} data (fst (calculate_rsi data window))
   \<and> frame_preserved {''MACD'', ''Signal_Line''} data
       (fst (calculate_macd data macd_short macd_long macd_signal))
   \<and> frame_preserved {''Signal''} data (fst (identify_signals copy_on_write data))"
  using frame_moving_averages frame_rsi frame_macd frame_signals by blast


theorem stages_preserve_frame_witness:
  "wf_frame \<lparr>index = [0, 1],
      columns = [''Close'' \<mapsto> [Fin 10, Fin 13], ''Volume'' \<mapsto> [Fin 5, Fin 7]]\<rparr>
   \<and> index (fst (calculate_rsi \<lparr>index = [0, 1],
        columns = [''Close'' \<mapsto> [Fin 10, Fin 13], ''Volume'' \<mapsto> [Fin 5, Fin 7]]\<rparr> 2)) = [0, 1]
   \<and> columns (fst (calculate_rsi \<lparr>index = [0, 1],
        columns = [''Close'' \<mapsto> [Fin 10, Fin 13], ''Volume'' \<mapsto> [Fin 5, Fin 7]]\<rparr> 2))
        ''Volume'' = Some [Fin 5, Fin 7]
   \<and> wf_frame (fst (calculate_rsi \<lparr>index = [0, 1],
        columns = [''Close'' \<mapsto> [Fin 10, Fin 13], ''Volume'' \<mapsto> [Fin 5, Fin 7]]\<rparr> 2))
   \<and> columns (fst (identify_signals True \<lparr>index = [0, 1],
        columns = [''Close'' \<mapsto> [Fin 10, Fin 13], ''Volume'' \<mapsto> [Fin 5, Fin 7]]\<rparr>))
        ''Close'' = Some [Fin 10, Fin 13]
   \<and> wf_frame (fst (calculate_macd \<lparr>index = [0, 1],
        columns = [''Close'' \<mapsto> [Fin 10, Fin 13], ''Volume'' \<mapsto> [Fin 5, Fin 7]]\<rparr> 12 26 9))
   \<and> wf_frame (fst (calculate_moving_averages \<lparr>index = [0, 1],
        columns = [''Close'' \<mapsto> [Fin 10, Fin 13], ''Volume'' \<mapsto> [Fin 5, Fin 7]]\<rparr> 50 200))"
proof -
  let ?d = "\<lparr>index = [0, 1],
      columns = [''Close'' \<mapsto> [Fin 10, Fin 13], ''Volume'' \<mapsto> [Fin 5, Fin 7]]\<rparr>"
  have wf: "wf_frame ?d"
    by (auto simp: wf_frame_def split: if_splits)
  show ?thesis
    using wf stages_preserve_frame [of ?d 50 200 2 12 26 9 True]
    by (simp add: frame_preserved_def)
qed

end
